theory Spec2Isabelle
  imports Main
begin

section \<open>Addresses, parsed packets and OpenFlow messages\<close>

text \<open>
  The controller works on values of the POX library: network and hardware addresses,
  parsed Ethernet/ARP headers and OpenFlow 1.0 messages. Only the fields that
  \<^verbatim>\<open>loadBalancingSwitch.py\<close> reads or writes are kept. Addresses are built from their
  textual form, as the source does (\<^verbatim>\<open>IPAddr("10.0.0.10")\<close>); two addresses are equal
  when their texts are, which is POX's equality on addresses written in canonical form.
\<close>

datatype IPAddr = IPAddr string

datatype EthAddr = EthAddr string

text \<open>Protocol constants of the POX packet and OpenFlow libraries, at their standard values.\<close>

definition ARP_TYPE :: int where
  "ARP_TYPE = 0x0806"

definition REQUEST :: int where
  "REQUEST = 1"

definition REPLY :: int where
  "REPLY = 2"

definition OFPP_NONE :: int where
  "OFPP_NONE = 0xffff"

definition OFPFC_ADD :: int where
  "OFPFC_ADD = 0"

definition OFPFC_DELETE :: int where
  "OFPFC_DELETE = 3"

record arp =
  opcode :: int
  hwsrc :: EthAddr
  hwdst :: EthAddr
  protosrc :: IPAddr
  protodst :: IPAddr

text \<open>
  The payload of a parsed frame (\<^verbatim>\<open>event.parsed.next\<close>): an ARP header, or anything else.
\<close>

datatype payload = ARP arp | Other

text \<open>
  An Ethernet frame. POX's \<^verbatim>\<open>payload\<close> is another name of the field \<^verbatim>\<open>next\<close>.
\<close>

record ethernet =
  src :: EthAddr
  dst :: EthAddr
  type :: int
  "next" :: payload

text \<open>
  \<^verbatim>\<open>of.ofp_match(...)\<close>: a field that is not given is a wildcard (\<open>None\<close>).
\<close>

record ofp_match =
  dl_type :: "int option"
  nw_proto :: "int option"
  in_port :: "int option"
  nw_src :: "IPAddr option"
  nw_dst :: "IPAddr option"

definition ofp_match_any :: ofp_match where
  "ofp_match_any =
     \<lparr>dl_type = None, nw_proto = None, in_port = None, nw_src = None, nw_dst = None\<rparr>"

datatype ofp_action = set_dst IPAddr | set_src IPAddr | "output" int

text \<open>
  The two messages the controller sends: \<^verbatim>\<open>ofp_flow_mod\<close> (command, match, actions) and
  \<^verbatim>\<open>ofp_packet_out\<close> (in_port, the frame carried as data, actions).
\<close>

datatype ofp_msg =
  ofp_flow_mod int ofp_match "ofp_action list"
| ofp_packet_out int ethernet "ofp_action list"

type_synonym connection = nat

record PacketIn =
  parsed :: ethernet
  port :: int

datatype event = PacketIn_event PacketIn | ConnectionUp_event connection

section \<open>The controller object\<close>

record LoadBalancer =
  virtualIP :: IPAddr
  clientIPs :: "IPAddr list"
  clientMACs :: "EthAddr list"
  serverIPs :: "IPAddr list"
  serverMACs :: "EthAddr list"
  flowTable :: "connection option"
  nextServerIndex :: int

text \<open>\<^verbatim>\<open>LoadBalancer.__init__\<close>: the hard-coded pool, no client, no connection, cursor 0.\<close>

definition LoadBalancer_init :: LoadBalancer where
  "LoadBalancer_init =
     \<lparr>virtualIP = IPAddr ''10.0.0.10'',
      clientIPs = [],
      clientMACs = [],
      serverIPs = [IPAddr ''10.0.0.5'', IPAddr ''10.0.0.6''],
      serverMACs = [EthAddr ''00:00:00:00:00:05'', EthAddr ''00:00:00:00:00:06''],
      flowTable = None,
      nextServerIndex = 0\<rparr>"

section \<open>Python's list operations and exceptions\<close>

datatype error = AttributeError | IndexError | ValueError | ZeroDivisionError

text \<open>
  The subscript \<^verbatim>\<open>xs[i]\<close> of a list: positions \<open>0\<close> to \<open>len - 1\<close> from the front,
  \<open>-1\<close> down to \<open>-len\<close> from the back, and an exception for any other index.
\<close>

definition getitem :: "'a list \<Rightarrow> int \<Rightarrow> error + 'a" where
  "getitem xs i =
     (if 0 \<le> i \<and> i < int (length xs) then Inr (xs ! nat i)
      else if i < 0 \<and> - int (length xs) \<le> i then Inr (xs ! nat (int (length xs) + i))
      else Inl IndexError)"

text \<open>\<^verbatim>\<open>xs.index(x)\<close>: the first position of \<open>x\<close>; raises when there is none.\<close>

fun index :: "'a list \<Rightarrow> 'a \<Rightarrow> error + nat" where
  "index [] x = Inl ValueError"
| "index (y # ys) x =
     (if y = x then Inr 0
      else (case index ys x of Inl e \<Rightarrow> Inl e | Inr i \<Rightarrow> Inr (Suc i)))"

section \<open>The event handlers\<close>

text \<open>
  A handler either returns or raises, after having sent some messages and updated the
  object. All three are recorded: the exception raised (if any), the messages sent in
  order, each with the connection it went to, and the object as the handler left it.
\<close>

datatype result =
  Result (raised: "error option") (sent: "(connection \<times> ofp_msg) list") (self_after: LoadBalancer)

text \<open>
  Lines 67--85 of \<^verbatim>\<open>_handle_PacketIn\<close>: build the ARP reply from \<open>sourceIP\<close> and
  \<open>sourceMAC\<close>, wrap it in an Ethernet frame and send it out of the port the request came
  from. \<open>out\<close> holds what the handler has sent so far. Sending on a connection that was
  never recorded (\<^verbatim>\<open>self.flowTable\<close> is \<^verbatim>\<open>None\<close>) raises.
\<close>

definition send_arp_reply ::
  "LoadBalancer \<Rightarrow> PacketIn \<Rightarrow> arp \<Rightarrow> IPAddr \<Rightarrow> EthAddr \<Rightarrow> (connection \<times> ofp_msg) list \<Rightarrow> result" where
  "send_arp_reply self event packet sourceIP sourceMAC out =
     (let arpReply = \<lparr>opcode = REPLY, hwsrc = sourceMAC, hwdst = hwsrc packet,
                       protosrc = sourceIP, protodst = protosrc packet\<rparr>;
          ether = \<lparr>src = sourceMAC, dst = hwsrc packet, type = ARP_TYPE, next = ARP arpReply\<rparr>;
          msg = ofp_packet_out OFPP_NONE ether [output (port event)]
      in case flowTable self of
           None \<Rightarrow> Result (Some AttributeError) out self
         | Some c \<Rightarrow> Result None (out @ [(c, msg)]) self)"

text \<open>
  \<^verbatim>\<open>_handle_PacketIn\<close>, statement by statement. The opcode is read only when the frame
  type is ARP (the \<^verbatim>\<open>and\<close> of line 35); a payload without that field raises there. The
  client is appended to both lists before the rule is sent, and the cursor moves only
  after the send.
\<close>

definition handle_PacketIn :: "LoadBalancer \<Rightarrow> PacketIn \<Rightarrow> result" where
  "handle_PacketIn self event =
     (if type (parsed event) \<noteq> ARP_TYPE then Result None [] self
      else case next (parsed event) of
        Other \<Rightarrow> Result (Some AttributeError) [] self
      | ARP packet \<Rightarrow>
          if opcode packet \<noteq> REQUEST then Result None [] self
          else if protodst packet = virtualIP self then
            (case getitem (serverMACs self) (nextServerIndex self) of
               Inl e \<Rightarrow> Result (Some e) [] self
             | Inr sourceMAC \<Rightarrow>
                 if protosrc packet \<notin> set (clientIPs self) then
                   (let self1 = self\<lparr>clientIPs := clientIPs self @ [protosrc packet],
                                      clientMACs := clientMACs self @ [hwsrc packet]\<rparr>
                    in case getitem (serverIPs self1) (nextServerIndex self1) of
                         Inl e \<Rightarrow> Result (Some e) [] self1
                       | Inr serverIP \<Rightarrow>
                           (let msg = ofp_flow_mod OFPFC_ADD
                                        \<lparr>dl_type = Some 0x0800, nw_proto = Some 1,
                                         in_port = Some (port event), nw_src = None,
                                         nw_dst = Some (virtualIP self1)\<rparr>
                                        [set_dst serverIP, output (nextServerIndex self1 + 5)]
                            in case flowTable self1 of
                                 None \<Rightarrow> Result (Some AttributeError) [] self1
                               | Some c \<Rightarrow>
                                   if length (serverMACs self1) = 0
                                   then Result (Some ZeroDivisionError) [(c, msg)] self1
                                   else send_arp_reply
                                          (self1\<lparr>nextServerIndex :=
                                             (nextServerIndex self1 + 1)
                                               mod int (length (serverMACs self1))\<rparr>)
                                          event packet (virtualIP self) sourceMAC [(c, msg)]))
                 else send_arp_reply self event packet (virtualIP self) sourceMAC [])
          else if protodst packet \<in> set (clientIPs self) then
            (case index (clientIPs self) (protodst packet) of
               Inl e \<Rightarrow> Result (Some e) [] self
             | Inr clientIndex \<Rightarrow>
                 (case getitem (clientMACs self) (int clientIndex) of
                    Inl e \<Rightarrow> Result (Some e) [] self
                  | Inr sourceMAC \<Rightarrow>
                      (let msg = ofp_flow_mod OFPFC_ADD
                                   \<lparr>dl_type = Some 0x0800, nw_proto = Some 1,
                                    in_port = Some (port event),
                                    nw_src = Some (protosrc packet),
                                    nw_dst = Some (protodst packet)\<rparr>
                                   [set_src (virtualIP self), output (int clientIndex + 1)]
                       in case flowTable self of
                            None \<Rightarrow> Result (Some AttributeError) [] self
                          | Some c \<Rightarrow>
                              send_arp_reply self event packet (protodst packet) sourceMAC
                                [(c, msg)])))
          else Result None [] self)"

text \<open>
  \<^verbatim>\<open>_handle_ConnectionUp\<close>: record the connection, then delete every rule of its table
  (a flow-mod with command \<^verbatim>\<open>OFPFC_DELETE\<close> and the match that matches everything).
\<close>

definition handle_ConnectionUp :: "LoadBalancer \<Rightarrow> connection \<Rightarrow> result" where
  "handle_ConnectionUp self c =
     (let self1 = self\<lparr>flowTable := Some c\<rparr>
      in case flowTable self1 of
           None \<Rightarrow> Result (Some AttributeError) [] self1
         | Some c' \<Rightarrow> Result None [(c', ofp_flow_mod OFPFC_DELETE ofp_match_any [])] self1)"

text \<open>The controller's reaction to one event of the switch.\<close>

fun dispatch :: "LoadBalancer \<Rightarrow> event \<Rightarrow> result" where
  "dispatch self (PacketIn_event event) = handle_PacketIn self event"
| "dispatch self (ConnectionUp_event c) = handle_ConnectionUp self c"

text \<open>
  The object after a sequence of events. A handler that raises leaves the object as it was
  at the raise, and the next event finds it so.
\<close>

fun run :: "LoadBalancer \<Rightarrow> event list \<Rightarrow> LoadBalancer" where
  "run self [] = self"
| "run self (e # es) = run (self_after (dispatch self e)) es"

text \<open>The controller once a switch has connected on \<open>c\<close>, before any packet.\<close>

definition connected :: "connection \<Rightarrow> LoadBalancer" where
  "connected c = self_after (handle_ConnectionUp LoadBalancer_init c)"

section \<open>Notions used to state the properties\<close>

text \<open>
  The test of line 35: the ARP header of an event that is an ARP request, \<open>None\<close> for any
  other frame.
\<close>

definition arp_request_of :: "PacketIn \<Rightarrow> arp option" where
  "arp_request_of event =
     (if type (parsed event) = ARP_TYPE
      then (case next (parsed event) of
              ARP packet \<Rightarrow> if opcode packet = REQUEST then Some packet else None
            | Other \<Rightarrow> None)
      else None)"

text \<open>
  A frame as the POX parser delivers it: a frame of type ARP carries an ARP header.
\<close>

definition parsed_ok :: "PacketIn \<Rightarrow> bool" where
  "parsed_ok event =
     (if type (parsed event) = ARP_TYPE
      then (case next (parsed event) of ARP packet \<Rightarrow> True | Other \<Rightarrow> False)
      else True)"

text \<open>The three branches of lines 37, 52 and 64, in the order the handler tests them.\<close>

datatype arp_case = ClientToVirtual | BackendToClient | Irrelevant

definition classify :: "LoadBalancer \<Rightarrow> arp \<Rightarrow> arp_case" where
  "classify self packet =
     (if protodst packet = virtualIP self then ClientToVirtual
      else if protodst packet \<in> set (clientIPs self) then BackendToClient
      else Irrelevant)"

text \<open>
  The consistency of the object: the two server lists have one length, the cursor is an
  index into them, and the two client lists have one length.
\<close>

definition consistent :: "LoadBalancer \<Rightarrow> bool" where
  "consistent self =
     (length (serverIPs self) = length (serverMACs self)
      \<and> 0 \<le> nextServerIndex self
      \<and> nextServerIndex self < int (length (serverMACs self))
      \<and> length (clientMACs self) = length (clientIPs self))"

text \<open>The rule and the reply of the two answered cases, as the handler builds them.\<close>

definition arp_reply :: "PacketIn \<Rightarrow> arp \<Rightarrow> IPAddr \<Rightarrow> EthAddr \<Rightarrow> ofp_msg" where
  "arp_reply event packet sourceIP sourceMAC =
     ofp_packet_out OFPP_NONE
       \<lparr>src = sourceMAC, dst = hwsrc packet, type = ARP_TYPE,
        next = ARP \<lparr>opcode = REPLY, hwsrc = sourceMAC, hwdst = hwsrc packet,
                    protosrc = sourceIP, protodst = protosrc packet\<rparr>\<rparr>
       [output (port event)]"

definition client_rule :: "LoadBalancer \<Rightarrow> PacketIn \<Rightarrow> int \<Rightarrow> ofp_msg" where
  "client_rule self event i =
     ofp_flow_mod OFPFC_ADD
       \<lparr>dl_type = Some 0x0800, nw_proto = Some 1, in_port = Some (port event),
        nw_src = None, nw_dst = Some (virtualIP self)\<rparr>
       [set_dst (serverIPs self ! nat i), output (i + 5)]"

definition server_rule :: "LoadBalancer \<Rightarrow> PacketIn \<Rightarrow> arp \<Rightarrow> nat \<Rightarrow> ofp_msg" where
  "server_rule self event packet clientIndex =
     ofp_flow_mod OFPFC_ADD
       \<lparr>dl_type = Some 0x0800, nw_proto = Some 1, in_port = Some (port event),
        nw_src = Some (protosrc packet), nw_dst = Some (protodst packet)\<rparr>
       [set_src (virtualIP self), output (int clientIndex + 1)]"

text \<open>
  The server a handler names to the requester: the source hardware address of each
  reply it sent, looked up in the list of server hardware addresses.
\<close>

fun reply_hwsrc :: "connection \<times> ofp_msg \<Rightarrow> EthAddr option" where
  "reply_hwsrc (c, ofp_packet_out p ether acts) =
     (case next ether of ARP a \<Rightarrow> Some (hwsrc a) | Other \<Rightarrow> None)"
| "reply_hwsrc (c, ofp_flow_mod cmd m acts) = None"

definition named_backends :: "LoadBalancer \<Rightarrow> result \<Rightarrow> (error + nat) list" where
  "named_backends self r =
     concat (map (\<lambda>m. case reply_hwsrc m of
                          None \<Rightarrow> []
                        | Some mac \<Rightarrow> [index (serverMACs self) mac])
                 (sent r))"

text \<open>
  An ARP request as a host sends it: broadcast, from \<open>mac\<close>/\<open>ip\<close>, asking for \<open>target\<close>,
  seen by the switch on port \<open>p\<close>.
\<close>

definition arp_request_in :: "EthAddr \<Rightarrow> IPAddr \<Rightarrow> IPAddr \<Rightarrow> int \<Rightarrow> PacketIn" where
  "arp_request_in mac ip target p =
     \<lparr>parsed = \<lparr>src = mac, dst = EthAddr ''ff:ff:ff:ff:ff:ff'', type = ARP_TYPE,
                next = ARP \<lparr>opcode = REQUEST, hwsrc = mac,
                            hwdst = EthAddr ''00:00:00:00:00:00'',
                            protosrc = ip, protodst = target\<rparr>\<rparr>,
      port = p\<rparr>"

text \<open>
  A small network used to run the handlers on concrete events: hosts 10.0.0.1 and 10.0.0.2
  ask for the virtual address, and the first server asks for host 10.0.0.1.
\<close>

definition h1_request :: PacketIn where
  "h1_request =
     arp_request_in (EthAddr ''00:00:00:00:00:01'') (IPAddr ''10.0.0.1'') (IPAddr ''10.0.0.10'') 1"

definition h2_request :: PacketIn where
  "h2_request =
     arp_request_in (EthAddr ''00:00:00:00:00:02'') (IPAddr ''10.0.0.2'') (IPAddr ''10.0.0.10'') 2"

definition h3_request :: PacketIn where
  "h3_request =
     arp_request_in (EthAddr ''00:00:00:00:00:03'') (IPAddr ''10.0.0.3'') (IPAddr ''10.0.0.10'') 3"

definition server_request :: PacketIn where
  "server_request =
     arp_request_in (EthAddr ''00:00:00:00:00:05'') (IPAddr ''10.0.0.5'') (IPAddr ''10.0.0.1'') 5"

text \<open>The controller after a switch has connected on 7 and host 10.0.0.1 has registered.\<close>

definition one_client :: LoadBalancer where
  "one_client = run LoadBalancer_init [ConnectionUp_event 7, PacketIn_event h1_request]"

section \<open>Basic facts about the handlers\<close>

lemma getitem_in_range:
  "0 \<le> i \<Longrightarrow> i < int (length xs) \<Longrightarrow> getitem xs i = Inr (xs ! nat i)"
  by (simp add: getitem_def)

lemma index_mem:
  "x \<in> set xs \<Longrightarrow> \<exists>i. index xs x = Inr i \<and> i < length xs \<and> xs ! i = x"
  by (induction xs) auto

lemma index_first:
  "index xs x = Inr i \<Longrightarrow> i < length xs \<and> xs ! i = x \<and> x \<notin> set (take i xs)"
proof (induction xs arbitrary: i)
  case Nil
  then show ?case by simp
next
  case (Cons y ys)
  then show ?case
    by (cases "y = x") (auto split: sum.splits)
qed

lemma arp_request_ofD:
  "arp_request_of event = Some packet \<Longrightarrow>
     type (parsed event) = ARP_TYPE \<and> next (parsed event) = ARP packet \<and> opcode packet = REQUEST"
  by (auto simp: arp_request_of_def split: if_splits payload.splits)

lemma handle_no_request:
  "parsed_ok event \<Longrightarrow> arp_request_of event = None \<Longrightarrow>
     handle_PacketIn self event = Result None [] self"
  by (auto simp: handle_PacketIn_def arp_request_of_def parsed_ok_def split: if_splits payload.splits)

lemma handle_irrelevant:
  "arp_request_of event = Some packet \<Longrightarrow> classify self packet = Irrelevant \<Longrightarrow>
     handle_PacketIn self event = Result None [] self"
  by (auto simp: handle_PacketIn_def classify_def dest!: arp_request_ofD split: if_splits)

lemma send_arp_reply_Some:
  "flowTable self = Some c \<Longrightarrow>
     send_arp_reply self event packet sourceIP sourceMAC out =
       Result None (out @ [(c, arp_reply event packet sourceIP sourceMAC)]) self"
  by (simp add: send_arp_reply_def arp_reply_def)

lemma send_arp_reply_None:
  "flowTable self = None \<Longrightarrow>
     send_arp_reply self event packet sourceIP sourceMAC out = Result (Some AttributeError) out self"
  by (simp add: send_arp_reply_def)

lemma handle_new_client:
  assumes "arp_request_of event = Some packet" "protodst packet = virtualIP self"
    "protosrc packet \<notin> set (clientIPs self)" "consistent self" "flowTable self = Some c"
  shows "handle_PacketIn self event =
     Result None
       [(c, client_rule self event (nextServerIndex self)),
        (c, arp_reply event packet (virtualIP self) (serverMACs self ! nat (nextServerIndex self)))]
       (self\<lparr>clientIPs := clientIPs self @ [protosrc packet],
             clientMACs := clientMACs self @ [hwsrc packet],
             nextServerIndex := (nextServerIndex self + 1) mod int (length (serverMACs self))\<rparr>)"
  using assms
  by (auto simp: handle_PacketIn_def Let_def consistent_def getitem_in_range send_arp_reply_Some client_rule_def
      dest!: arp_request_ofD)

lemma handle_known_client:
  assumes "arp_request_of event = Some packet" "protodst packet = virtualIP self"
    "protosrc packet \<in> set (clientIPs self)" "consistent self" "flowTable self = Some c"
  shows "handle_PacketIn self event =
     Result None
       [(c, arp_reply event packet (virtualIP self) (serverMACs self ! nat (nextServerIndex self)))]
       self"
  using assms
  by (auto simp: handle_PacketIn_def Let_def consistent_def getitem_in_range send_arp_reply_Some
      dest!: arp_request_ofD)

lemma handle_backend:
  assumes "arp_request_of event = Some packet" "protodst packet \<noteq> virtualIP self"
    "index (clientIPs self) (protodst packet) = Inr clientIndex" "consistent self" "flowTable self = Some c"
  shows "handle_PacketIn self event =
     Result None
       [(c, server_rule self event packet clientIndex),
        (c, arp_reply event packet (protodst packet) (clientMACs self ! clientIndex))]
       self"
proof -
  from assms(3) have i: "clientIndex < length (clientIPs self)" "protodst packet \<in> set (clientIPs self)"
    using index_first[OF assms(3)] by (auto dest: nth_mem)
  with assms show ?thesis
    by (auto simp: handle_PacketIn_def Let_def consistent_def getitem_in_range send_arp_reply_Some server_rule_def
      dest!: arp_request_ofD)
qed


lemma handle_PacketIn_after:
  "self_after (handle_PacketIn self event) = self \<or>
   (\<exists>packet. arp_request_of event = Some packet \<and> protodst packet = virtualIP self \<and>
      protosrc packet \<notin> set (clientIPs self) \<and>
      (self_after (handle_PacketIn self event) =
         self\<lparr>clientIPs := clientIPs self @ [protosrc packet],
               clientMACs := clientMACs self @ [hwsrc packet]\<rparr> \<and>
       raised (handle_PacketIn self event) \<noteq> None
       \<or>
       self_after (handle_PacketIn self event) =
         self\<lparr>clientIPs := clientIPs self @ [protosrc packet],
               clientMACs := clientMACs self @ [hwsrc packet],
               nextServerIndex := (nextServerIndex self + 1) mod int (length (serverMACs self))\<rparr> \<and>
       serverMACs self \<noteq> [] \<and> flowTable self \<noteq> None))"
  by (auto simp: handle_PacketIn_def arp_request_of_def send_arp_reply_def Let_def
      split: payload.splits sum.splits option.splits)

lemma handle_ConnectionUp_eq:
  "handle_ConnectionUp self c =
     Result None [(c, ofp_flow_mod OFPFC_DELETE ofp_match_any [])] (self\<lparr>flowTable := Some c\<rparr>)"
  by (simp add: handle_ConnectionUp_def)

lemma consistent_step: "consistent self \<Longrightarrow> consistent (self_after (dispatch self e))"
proof (cases e)
  case (PacketIn_event event)
  assume c: "consistent self"
  from handle_PacketIn_after[of self event] c show ?thesis
    unfolding PacketIn_event by (auto simp: consistent_def)
next
  case (ConnectionUp_event c)
  assume "consistent self"
  then show ?thesis
    unfolding ConnectionUp_event by (simp add: handle_ConnectionUp_eq consistent_def)
qed

lemma distinct_step:
  "distinct (clientIPs self) \<Longrightarrow> distinct (clientIPs (self_after (dispatch self e)))"
proof (cases e)
  case (PacketIn_event event)
  assume c: "distinct (clientIPs self)"
  from handle_PacketIn_after[of self event] c show ?thesis
    unfolding PacketIn_event by auto
next
  case (ConnectionUp_event c)
  assume "distinct (clientIPs self)"
  then show ?thesis
    unfolding ConnectionUp_event by (simp add: handle_ConnectionUp_eq)
qed

lemma pool_step:
  "serverIPs (self_after (dispatch self e)) = serverIPs self \<and>
   serverMACs (self_after (dispatch self e)) = serverMACs self \<and>
   virtualIP (self_after (dispatch self e)) = virtualIP self"
proof (cases e)
  case (PacketIn_event event)
  from handle_PacketIn_after[of self event] show ?thesis
    unfolding PacketIn_event by auto
next
  case (ConnectionUp_event c)
  show ?thesis
    unfolding ConnectionUp_event by (simp add: handle_ConnectionUp_eq)
qed

lemma grows_step:
  "\<exists>ys. clientIPs (self_after (dispatch self e)) = clientIPs self @ ys"
proof (cases e)
  case (PacketIn_event event)
  from handle_PacketIn_after[of self event] show ?thesis
    unfolding PacketIn_event by auto
next
  case (ConnectionUp_event c)
  show ?thesis
    unfolding ConnectionUp_event by (simp add: handle_ConnectionUp_eq)
qed

lemma consistent_run: "consistent self \<Longrightarrow> consistent (run self es)"
  by (induction es arbitrary: self) (auto intro: consistent_step)

lemma distinct_run: "distinct (clientIPs self) \<Longrightarrow> distinct (clientIPs (run self es))"
  by (induction es arbitrary: self) (auto intro: distinct_step)

lemma pool_run:
  "serverIPs (run self es) = serverIPs self \<and> serverMACs (run self es) = serverMACs self \<and>
   virtualIP (run self es) = virtualIP self"
  by (induction es arbitrary: self) (auto simp: pool_step)

lemma grows_run: "\<exists>ys. clientIPs (run self es) = clientIPs self @ ys"
proof (induction es arbitrary: self)
  case Nil
  then show ?case by simp
next
  case (Cons e es)
  from grows_step[of self e] obtain ys where
    ys: "clientIPs (self_after (dispatch self e)) = clientIPs self @ ys" by blast
  from Cons.IH[of "self_after (dispatch self e)"] obtain zs where
    "clientIPs (run (self_after (dispatch self e)) es) = clientIPs (self_after (dispatch self e)) @ zs"
    by blast
  with ys show ?case by simp
qed

lemma consistent_init: "consistent LoadBalancer_init"
  by (simp add: consistent_def LoadBalancer_init_def)

lemma connected_eq: "connected c = LoadBalancer_init\<lparr>flowTable := Some c\<rparr>"
  by (simp add: connected_def handle_ConnectionUp_eq)

lemma run_append: "run self (xs @ ys) = run (run self xs) ys"
  by (induction xs arbitrary: self) auto

section \<open>Link establishment\<close>

text \<open>
  C8. On every link-establishment event the controller sends exactly one message, the
  flow-mod that deletes all rules, to the connection of the event, and nothing else. Only
  the recorded connection changes: the client lists and the round-robin cursor are as
  before, so they persist when the link is established again.
\<close>

theorem link_reset:
  "handle_ConnectionUp self c =
     Result None [(c, ofp_flow_mod OFPFC_DELETE ofp_match_any [])] (self\<lparr>flowTable := Some c\<rparr>)
   \<and> clientIPs (self_after (handle_ConnectionUp self c)) = clientIPs self
   \<and> clientMACs (self_after (handle_ConnectionUp self c)) = clientMACs self
   \<and> nextServerIndex (self_after (handle_ConnectionUp self c)) = nextServerIndex self"
  by (simp add: handle_ConnectionUp_eq)

section \<open>The first client of the configured pool\<close>

lemma consistent_connected: "consistent (connected c)"
  by (simp add: connected_eq consistent_def LoadBalancer_init_def)

text \<open>
  C6. With virtual address 10.0.0.10 and servers 10.0.0.5 and 10.0.0.6, once a switch is
  connected, the first ARP request from 10.0.0.1 for 10.0.0.10 seen on port 3 makes the
  controller send exactly two messages: one rule that matches ICMP over IPv4 entering on
  port 3 for 10.0.0.10, rewrites the destination to 10.0.0.5 and outputs to port 5 (the
  port of server 0), and one ARP reply from 10.0.0.10 with the hardware address of server
  0, addressed to 10.0.0.1 and its hardware address, out of port 3.
\<close>

theorem first_client_rule_fields:
  assumes "arp_request_of event = Some packet"
    and "port event = 3"
    and "protosrc packet = IPAddr ''10.0.0.1''"
    and "protodst packet = IPAddr ''10.0.0.10''"
  shows "raised (handle_PacketIn (connected c) event) = None \<and>
     sent (handle_PacketIn (connected c) event) =
       [(c, ofp_flow_mod OFPFC_ADD
              \<lparr>dl_type = Some 0x0800, nw_proto = Some 1, in_port = Some 3,
               nw_src = None, nw_dst = Some (IPAddr ''10.0.0.10'')\<rparr>
              [set_dst (IPAddr ''10.0.0.5''), output 5]),
        (c, ofp_packet_out OFPP_NONE
              \<lparr>src = EthAddr ''00:00:00:00:00:05'', dst = hwsrc packet, type = ARP_TYPE,
               next = ARP \<lparr>opcode = REPLY, hwsrc = EthAddr ''00:00:00:00:00:05'',
                           hwdst = hwsrc packet, protosrc = IPAddr ''10.0.0.10'',
                           protodst = IPAddr ''10.0.0.1''\<rparr>\<rparr>
              [output 3])]"
proof -
  have v: "protodst packet = virtualIP (connected c)"
    using assms(4) by (simp add: connected_eq LoadBalancer_init_def)
  have n: "protosrc packet \<notin> set (clientIPs (connected c))"
    by (simp add: connected_eq LoadBalancer_init_def)
  have f: "flowTable (connected c) = Some c"
    by (simp add: connected_eq)
  have c0: "nextServerIndex (connected c) = 0"
    and vip: "virtualIP (connected c) = IPAddr ''10.0.0.10''"
    and ips: "serverIPs (connected c) = [IPAddr ''10.0.0.5'', IPAddr ''10.0.0.6'']"
    and macs: "serverMACs (connected c) =
                 [EthAddr ''00:00:00:00:00:05'', EthAddr ''00:00:00:00:00:06'']"
    by (simp_all add: connected_eq LoadBalancer_init_def)
  note h = handle_new_client[OF assms(1) v n consistent_connected f]
  show ?thesis
    unfolding h using assms(2,3)
    by (simp add: client_rule_def arp_reply_def c0 vip ips macs)
qed

theorem first_client_rule_fields_witness:
  "sent (handle_PacketIn (connected 7)
           (arp_request_in (EthAddr ''00:00:00:00:00:01'') (IPAddr ''10.0.0.1'')
              (IPAddr ''10.0.0.10'') 3)) =
       [(7, ofp_flow_mod OFPFC_ADD
              \<lparr>dl_type = Some 0x0800, nw_proto = Some 1, in_port = Some 3,
               nw_src = None, nw_dst = Some (IPAddr ''10.0.0.10'')\<rparr>
              [set_dst (IPAddr ''10.0.0.5''), output 5]),
        (7, ofp_packet_out OFPP_NONE
              \<lparr>src = EthAddr ''00:00:00:00:00:05'', dst = EthAddr ''00:00:00:00:00:01'',
               type = ARP_TYPE,
               next = ARP \<lparr>opcode = REPLY, hwsrc = EthAddr ''00:00:00:00:00:05'',
                           hwdst = EthAddr ''00:00:00:00:00:01'',
                           protosrc = IPAddr ''10.0.0.10'',
                           protodst = IPAddr ''10.0.0.1''\<rparr>\<rparr>
              [output 3])]"
  using first_client_rule_fields
    [of "arp_request_in (EthAddr ''00:00:00:00:00:01'') (IPAddr ''10.0.0.1'') (IPAddr ''10.0.0.10'') 3"
        "\<lparr>opcode = REQUEST, hwsrc = EthAddr ''00:00:00:00:00:01'',
          hwdst = EthAddr ''00:00:00:00:00:00'',
          protosrc = IPAddr ''10.0.0.1'', protodst = IPAddr ''10.0.0.10''\<rparr>" 7]
  by (simp add: arp_request_in_def arp_request_of_def)

section \<open>Classification of ARP requests\<close>

lemma handle_no_request_quiet:
  "arp_request_of event = None \<Longrightarrow>
     sent (handle_PacketIn self event) = [] \<and> self_after (handle_PacketIn self event) = self"
  by (auto simp: handle_PacketIn_def arp_request_of_def split: if_splits payload.splits)

text \<open>
  C5. For an ARP request exactly one of the three cases is selected: the handler tests
  "the target is the virtual address" first, "the target is a registered client address"
  second, and takes the third branch otherwise, so the three conditions below exclude each
  other and cover every request. A request for an address that is neither the virtual
  address nor a registered client address is Irrelevant: the handler returns without
  sending a rule or a reply and leaves the object (registry and cursor) as it was. A packet
  that is not an ARP request makes the handler send nothing and change nothing; on a frame
  as the parser delivers it the handler also returns normally.
\<close>

theorem classifier_completeness:
  "(classify self packet = ClientToVirtual \<longleftrightarrow> protodst packet = virtualIP self)
   \<and> (classify self packet = BackendToClient \<longleftrightarrow>
        protodst packet \<noteq> virtualIP self \<and> protodst packet \<in> set (clientIPs self))
   \<and> (classify self packet = Irrelevant \<longleftrightarrow>
        protodst packet \<noteq> virtualIP self \<and> protodst packet \<notin> set (clientIPs self))
   \<and> (arp_request_of event = Some packet \<and> protodst packet \<noteq> virtualIP self
        \<and> protodst packet \<notin> set (clientIPs self) \<longrightarrow>
        handle_PacketIn self event = Result None [] self)
   \<and> (arp_request_of event = None \<longrightarrow>
        sent (handle_PacketIn self event) = [] \<and> self_after (handle_PacketIn self event) = self)
   \<and> (arp_request_of event = None \<and> parsed_ok event \<longrightarrow>
        handle_PacketIn self event = Result None [] self)"
proof -
  have a: "arp_request_of event = Some packet \<and> protodst packet \<noteq> virtualIP self
        \<and> protodst packet \<notin> set (clientIPs self) \<longrightarrow>
        handle_PacketIn self event = Result None [] self"
    using handle_irrelevant[of event packet self] by (simp add: classify_def)
  have b: "arp_request_of event = None \<longrightarrow>
        sent (handle_PacketIn self event) = [] \<and> self_after (handle_PacketIn self event) = self"
    using handle_no_request_quiet by blast
  have c: "arp_request_of event = None \<and> parsed_ok event \<longrightarrow>
        handle_PacketIn self event = Result None [] self"
    using handle_no_request by blast
  have d: "(classify self packet = ClientToVirtual \<longleftrightarrow> protodst packet = virtualIP self)
   \<and> (classify self packet = BackendToClient \<longleftrightarrow>
        protodst packet \<noteq> virtualIP self \<and> protodst packet \<in> set (clientIPs self))
   \<and> (classify self packet = Irrelevant \<longleftrightarrow>
        protodst packet \<noteq> virtualIP self \<and> protodst packet \<notin> set (clientIPs self))"
    by (simp add: classify_def)
  from a b c d show ?thesis by blast
qed

theorem classifier_completeness_witness:
  "classify (connected 7)
     \<lparr>opcode = REQUEST, hwsrc = EthAddr ''00:00:00:00:00:01'',
      hwdst = EthAddr ''00:00:00:00:00:00'',
      protosrc = IPAddr ''10.0.0.1'', protodst = IPAddr ''10.0.0.9''\<rparr> = Irrelevant
   \<and> handle_PacketIn (connected 7)
        (arp_request_in (EthAddr ''00:00:00:00:00:01'') (IPAddr ''10.0.0.1'')
           (IPAddr ''10.0.0.9'') 1) = Result None [] (connected 7)"
  using classifier_completeness
    [of "connected 7"
        "\<lparr>opcode = REQUEST, hwsrc = EthAddr ''00:00:00:00:00:01'',
          hwdst = EthAddr ''00:00:00:00:00:00'',
          protosrc = IPAddr ''10.0.0.1'', protodst = IPAddr ''10.0.0.9''\<rparr>"
        "arp_request_in (EthAddr ''00:00:00:00:00:01'') (IPAddr ''10.0.0.1'') (IPAddr ''10.0.0.9'') 1"]
  by (simp add: connected_eq LoadBalancer_init_def arp_request_in_def arp_request_of_def)

lemma one_client_eq:
  "one_client =
     \<lparr>virtualIP = IPAddr ''10.0.0.10'',
      clientIPs = [IPAddr ''10.0.0.1''],
      clientMACs = [EthAddr ''00:00:00:00:00:01''],
      serverIPs = [IPAddr ''10.0.0.5'', IPAddr ''10.0.0.6''],
      serverMACs = [EthAddr ''00:00:00:00:00:05'', EthAddr ''00:00:00:00:00:06''],
      flowTable = Some 7,
      nextServerIndex = 1\<rparr>"
  by (simp add: one_client_def handle_ConnectionUp_eq LoadBalancer_init_def h1_request_def
      arp_request_in_def handle_PacketIn_def getitem_def send_arp_reply_def Let_def
      ARP_TYPE_def REQUEST_def)

lemma consistent_one_client: "consistent one_client"
  by (simp add: one_client_eq consistent_def)

section \<open>Requests from a server for a client\<close>

text \<open>
  C7. A BackendToClient event is an ARP request the handler takes in its second branch: the
  target is a registered client address (and is not the virtual address, which the first
  branch takes). With a connection recorded, the handler sends exactly one rule that
  matches ICMP over IPv4 entering on the port of the event, from the requester's address
  to the client's address, rewrites the source to the virtual address and outputs to the
  client's position in the registry counted from 1; and then one ARP reply whose source
  address is the client's address, whose source hardware address is the one recorded for
  that client, addressed to the requester, out of the port of the event. The object is
  unchanged.
\<close>

theorem reverse_direction:
  assumes "arp_request_of event = Some packet"
    and "classify self packet = BackendToClient"
    and "consistent self"
    and "flowTable self = Some c"
  shows "\<exists>clientIndex.
     index (clientIPs self) (protodst packet) = Inr clientIndex
     \<and> clientIndex < length (clientIPs self)
     \<and> clientIPs self ! clientIndex = protodst packet
     \<and> protodst packet \<notin> set (take clientIndex (clientIPs self))
     \<and> handle_PacketIn self event =
         Result None
           [(c, ofp_flow_mod OFPFC_ADD
                  \<lparr>dl_type = Some 0x0800, nw_proto = Some 1, in_port = Some (port event),
                   nw_src = Some (protosrc packet), nw_dst = Some (protodst packet)\<rparr>
                  [set_src (virtualIP self), output (int clientIndex + 1)]),
            (c, ofp_packet_out OFPP_NONE
                  \<lparr>src = clientMACs self ! clientIndex, dst = hwsrc packet, type = ARP_TYPE,
                   next = ARP \<lparr>opcode = REPLY, hwsrc = clientMACs self ! clientIndex,
                               hwdst = hwsrc packet, protosrc = protodst packet,
                               protodst = protosrc packet\<rparr>\<rparr>
                  [output (port event)])]
           self"
proof -
  from assms(2) have nv: "protodst packet \<noteq> virtualIP self"
    and m: "protodst packet \<in> set (clientIPs self)"
    by (auto simp: classify_def split: if_splits)
  from index_mem[OF m] obtain i where i: "index (clientIPs self) (protodst packet) = Inr i"
    by blast
  note f = index_first[OF i]
  note h = handle_backend[OF assms(1) nv i assms(3,4)]
  show ?thesis
    using i f unfolding h by (simp add: server_rule_def arp_reply_def)
qed


theorem reverse_direction_witness:
  "handle_PacketIn one_client server_request =
     Result None
       [(7, ofp_flow_mod OFPFC_ADD
              \<lparr>dl_type = Some 0x0800, nw_proto = Some 1, in_port = Some 5,
               nw_src = Some (IPAddr ''10.0.0.5''), nw_dst = Some (IPAddr ''10.0.0.1'')\<rparr>
              [set_src (IPAddr ''10.0.0.10''), output 1]),
        (7, ofp_packet_out OFPP_NONE
              \<lparr>src = EthAddr ''00:00:00:00:00:01'', dst = EthAddr ''00:00:00:00:00:05'',
               type = ARP_TYPE,
               next = ARP \<lparr>opcode = REPLY, hwsrc = EthAddr ''00:00:00:00:00:01'',
                           hwdst = EthAddr ''00:00:00:00:00:05'',
                           protosrc = IPAddr ''10.0.0.1'',
                           protodst = IPAddr ''10.0.0.5''\<rparr>\<rparr>
              [output 5])]
       one_client"
  using reverse_direction
    [of server_request
        "\<lparr>opcode = REQUEST, hwsrc = EthAddr ''00:00:00:00:00:05'',
          hwdst = EthAddr ''00:00:00:00:00:00'',
          protosrc = IPAddr ''10.0.0.5'', protodst = IPAddr ''10.0.0.1''\<rparr>"
        one_client 7]
    consistent_one_client
  by (simp add: server_request_def classify_def one_client_eq arp_request_in_def arp_request_of_def)

section \<open>Requests from a client for the virtual address\<close>

text \<open>
  C2. The reply to a request for the virtual address takes its source hardware address
  from the server under the cursor at the time of the request (line 39), for a new and for
  a registered requester alike. Host 10.0.0.1 registers first: its rule sends its traffic
  to server 0 (10.0.0.5, port 5) and the reply carries the hardware address of server 0.
  The cursor then stands on server 1, and when the same host asks again the reply carries
  the hardware address of server 1, not that of the server its rule points to.
\<close>

theorem repeated_request_reply_identity:
  "sent (handle_PacketIn (connected 7) h1_request) =
     [(7, ofp_flow_mod OFPFC_ADD
            \<lparr>dl_type = Some 0x0800, nw_proto = Some 1, in_port = Some 1,
             nw_src = None, nw_dst = Some (IPAddr ''10.0.0.10'')\<rparr>
            [set_dst (IPAddr ''10.0.0.5''), output 5]),
      (7, ofp_packet_out OFPP_NONE
            \<lparr>src = EthAddr ''00:00:00:00:00:05'', dst = EthAddr ''00:00:00:00:00:01'',
             type = ARP_TYPE,
             next = ARP \<lparr>opcode = REPLY, hwsrc = EthAddr ''00:00:00:00:00:05'',
                         hwdst = EthAddr ''00:00:00:00:00:01'',
                         protosrc = IPAddr ''10.0.0.10'',
                         protodst = IPAddr ''10.0.0.1''\<rparr>\<rparr>
            [output 1])]
   \<and> self_after (handle_PacketIn (connected 7) h1_request) = one_client
   \<and> sent (handle_PacketIn one_client h1_request) =
     [(7, ofp_packet_out OFPP_NONE
            \<lparr>src = EthAddr ''00:00:00:00:00:06'', dst = EthAddr ''00:00:00:00:00:01'',
             type = ARP_TYPE,
             next = ARP \<lparr>opcode = REPLY, hwsrc = EthAddr ''00:00:00:00:00:06'',
                         hwdst = EthAddr ''00:00:00:00:00:01'',
                         protosrc = IPAddr ''10.0.0.10'',
                         protodst = IPAddr ''10.0.0.1''\<rparr>\<rparr>
            [output 1])]"
  by (simp add: one_client_eq connected_eq LoadBalancer_init_def h1_request_def
      arp_request_in_def handle_PacketIn_def getitem_def send_arp_reply_def Let_def
      ARP_TYPE_def REQUEST_def)

section \<open>Requests handled before any switch has connected\<close>

text \<open>
  C3, as stated, fails on the object as the constructor leaves it: the handler has no test
  for a missing connection. The request of host 10.0.0.1 for the virtual address raises
  instead of being discarded, and the object is not as it was before.
\<close>

theorem no_connection_counterexample:
  "raised (handle_PacketIn LoadBalancer_init h1_request) = Some AttributeError
   \<and> self_after (handle_PacketIn LoadBalancer_init h1_request) \<noteq> LoadBalancer_init"
  by (simp add: LoadBalancer_init_def h1_request_def
      arp_request_in_def handle_PacketIn_def getitem_def send_arp_reply_def Let_def
      ARP_TYPE_def REQUEST_def)

text \<open>
  C3, amended. While no connection is recorded, an ARP request that is not Irrelevant makes
  the handler raise at its first send, with no message sent; the cursor does not move and
  no connection appears. When the request is BackendToClient or its requester is already
  registered, the object is unchanged.
\<close>

theorem no_connection_raises:
  assumes "flowTable self = None"
    and "consistent self"
    and "arp_request_of event = Some packet"
    and "classify self packet \<noteq> Irrelevant"
  shows "raised (handle_PacketIn self event) = Some AttributeError
     \<and> sent (handle_PacketIn self event) = []
     \<and> nextServerIndex (self_after (handle_PacketIn self event)) = nextServerIndex self
     \<and> flowTable (self_after (handle_PacketIn self event)) = None
     \<and> (classify self packet = BackendToClient \<or> protosrc packet \<in> set (clientIPs self) \<longrightarrow>
          self_after (handle_PacketIn self event) = self)"
proof (cases "protodst packet = virtualIP self")
  case True
  with assms show ?thesis
    by (auto simp: handle_PacketIn_def Let_def consistent_def getitem_in_range
        send_arp_reply_None classify_def dest!: arp_request_ofD)
next
  case False
  with assms(4) have m: "protodst packet \<in> set (clientIPs self)"
    by (auto simp: classify_def split: if_splits)
  from index_mem[OF m] obtain i where i: "index (clientIPs self) (protodst packet) = Inr i"
    and il: "i < length (clientIPs self)"
    by blast
  with assms False m show ?thesis
    by (auto simp: handle_PacketIn_def Let_def consistent_def getitem_in_range
        send_arp_reply_None classify_def dest!: arp_request_ofD)
qed

theorem no_connection_raises_witness:
  "raised (handle_PacketIn LoadBalancer_init h1_request) = Some AttributeError
   \<and> sent (handle_PacketIn LoadBalancer_init h1_request) = []
   \<and> nextServerIndex (self_after (handle_PacketIn LoadBalancer_init h1_request)) = 0"
  using no_connection_raises
    [of LoadBalancer_init h1_request
        "\<lparr>opcode = REQUEST, hwsrc = EthAddr ''00:00:00:00:00:01'',
          hwdst = EthAddr ''00:00:00:00:00:00'',
          protosrc = IPAddr ''10.0.0.1'', protodst = IPAddr ''10.0.0.10''\<rparr>"]
    consistent_init
  by (simp add: h1_request_def classify_def LoadBalancer_init_def arp_request_in_def arp_request_of_def)

section \<open>Registration happens once\<close>

lemma index_append_new:
  "x \<notin> set xs \<Longrightarrow> index (xs @ x # ys) x = Inr (length xs)"
  by (induction xs) auto

lemma handle_known_client_after:
  "arp_request_of event = Some packet \<Longrightarrow> protodst packet = virtualIP self \<Longrightarrow>
   protosrc packet \<in> set (clientIPs self) \<Longrightarrow>
     self_after (handle_PacketIn self event) = self \<and>
     (\<forall>m \<in> set (sent (handle_PacketIn self event)).
        \<exists>c ether acts. m = (c, ofp_packet_out OFPP_NONE ether acts))"
  by (auto simp: handle_PacketIn_def send_arp_reply_def Let_def
      dest!: arp_request_ofD split: sum.splits option.splits)

lemma handle_new_client_registry:
  "arp_request_of event = Some packet \<Longrightarrow> protodst packet = virtualIP self \<Longrightarrow>
   protosrc packet \<notin> set (clientIPs self) \<Longrightarrow> consistent self \<Longrightarrow>
     clientIPs (self_after (handle_PacketIn self event)) = clientIPs self @ [protosrc packet] \<and>
     clientMACs (self_after (handle_PacketIn self event)) = clientMACs self @ [hwsrc packet]"
  by (auto simp: handle_PacketIn_def send_arp_reply_def Let_def consistent_def getitem_in_range
      dest!: arp_request_ofD split: sum.splits option.splits)

lemma distinct_reachable: "distinct (clientIPs (run LoadBalancer_init es))"
  by (rule distinct_run) (simp add: LoadBalancer_init_def)

text \<open>
  What a repeated request does keep. A request for the virtual address from an address
  that is already registered leaves the whole object as it was: the registry (so the
  position and the recorded hardware address of the client) and the cursor are unchanged,
  and no rule is sent, only the reply. The position a client gets at its first
  registration, the end of the list, is the position it is found at after any further
  events. After any sequence of events an address occurs at most once in the client list.
\<close>

theorem idempotent_registration:
  "(arp_request_of event = Some packet \<and> protodst packet = virtualIP self
      \<and> protosrc packet \<in> set (clientIPs self) \<longrightarrow>
      self_after (handle_PacketIn self event) = self
      \<and> (\<forall>m \<in> set (sent (handle_PacketIn self event)).
            \<exists>c ether acts. m = (c, ofp_packet_out OFPP_NONE ether acts)))
   \<and> (consistent self \<and> arp_request_of event = Some packet
      \<and> protodst packet = virtualIP self \<and> protosrc packet \<notin> set (clientIPs self) \<longrightarrow>
      index (clientIPs (run self (PacketIn_event event # es))) (protosrc packet)
        = Inr (length (clientIPs self)))
   \<and> distinct (clientIPs (run LoadBalancer_init es))"
proof -
  have a: "arp_request_of event = Some packet \<and> protodst packet = virtualIP self
      \<and> protosrc packet \<in> set (clientIPs self) \<longrightarrow>
      self_after (handle_PacketIn self event) = self
      \<and> (\<forall>m \<in> set (sent (handle_PacketIn self event)).
            \<exists>c ether acts. m = (c, ofp_packet_out OFPP_NONE ether acts))"
    using handle_known_client_after[of event packet self] by blast
  have b: "index (clientIPs (run self (PacketIn_event event # es))) (protosrc packet)
        = Inr (length (clientIPs self))"
    if h: "consistent self" "arp_request_of event = Some packet"
      "protodst packet = virtualIP self" "protosrc packet \<notin> set (clientIPs self)"
  proof -
    let ?s1 = "self_after (handle_PacketIn self event)"
    from handle_new_client_registry[OF h(2,3,4,1)]
    have r: "clientIPs ?s1 = clientIPs self @ [protosrc packet]" by simp
    from grows_run[of ?s1 es] obtain ys where
      "clientIPs (run ?s1 es) = clientIPs ?s1 @ ys" by blast
    with r have "clientIPs (run ?s1 es) = clientIPs self @ protosrc packet # ys" by simp
    with h(4) show ?thesis by (simp add: index_append_new)
  qed
  from a b distinct_reachable show ?thesis by blast
qed

theorem idempotent_registration_witness:
  "self_after (handle_PacketIn one_client h1_request) = one_client
   \<and> index (clientIPs (run (connected 7) [PacketIn_event h1_request, PacketIn_event h2_request,
          PacketIn_event h1_request])) (IPAddr ''10.0.0.1'') = Inr 0
   \<and> distinct (clientIPs (run LoadBalancer_init [ConnectionUp_event 7, PacketIn_event h1_request,
          PacketIn_event h1_request]))"
  using idempotent_registration
    [of h1_request
        "\<lparr>opcode = REQUEST, hwsrc = EthAddr ''00:00:00:00:00:01'',
          hwdst = EthAddr ''00:00:00:00:00:00'',
          protosrc = IPAddr ''10.0.0.1'', protodst = IPAddr ''10.0.0.10''\<rparr>"
        one_client
        "[ConnectionUp_event 7, PacketIn_event h1_request, PacketIn_event h1_request]"]
    idempotent_registration
    [of h1_request
        "\<lparr>opcode = REQUEST, hwsrc = EthAddr ''00:00:00:00:00:01'',
          hwdst = EthAddr ''00:00:00:00:00:00'',
          protosrc = IPAddr ''10.0.0.1'', protodst = IPAddr ''10.0.0.10''\<rparr>"
        "connected 7"
        "[PacketIn_event h2_request, PacketIn_event h1_request]"]
    consistent_connected
  by (simp add: h1_request_def one_client_eq arp_request_in_def arp_request_of_def
      connected_eq LoadBalancer_init_def)

text \<open>
  C4. The registry keeps no backend index; the backend of a client is the one its messages
  name. At its first registration host 10.0.0.1 is given server 0: that is the server its
  rule points to and the server its reply names. When the same host asks again, the object
  is unchanged (one entry, position 0, cursor still 1, no rule sent), but the reply names
  server 1: line 39 reads the cursor, which has moved on. The repeated request does not
  yield the backend index of the first registration. This is the defect of C2.
\<close>

theorem repeated_request_backend_index:
  "named_backends (connected 7) (handle_PacketIn (connected 7) h1_request) = [Inr 0]
   \<and> self_after (handle_PacketIn (connected 7) h1_request) = one_client
   \<and> named_backends one_client (handle_PacketIn one_client h1_request) = [Inr 1]
   \<and> self_after (handle_PacketIn one_client h1_request) = one_client
   \<and> index (clientIPs one_client) (IPAddr ''10.0.0.1'') = Inr 0
   \<and> nextServerIndex one_client = 1"
  by (simp add: named_backends_def one_client_eq connected_eq LoadBalancer_init_def
      h1_request_def arp_request_in_def handle_PacketIn_def getitem_def send_arp_reply_def
      Let_def ARP_TYPE_def REQUEST_def)

section \<open>The round-robin cursor\<close>

lemma cursor_step_PacketIn:
  assumes "consistent self" "flowTable self \<noteq> None"
  shows "nextServerIndex (self_after (handle_PacketIn self event)) =
     (if clientIPs (self_after (handle_PacketIn self event)) = clientIPs self
      then nextServerIndex self
      else (nextServerIndex self + 1) mod int (length (serverMACs self)))"
  using assms
  by (auto simp: handle_PacketIn_def send_arp_reply_def Let_def consistent_def getitem_in_range
      split: payload.splits sum.splits option.splits)

lemma cursor_step:
  assumes "consistent self" "flowTable self \<noteq> None"
  shows "nextServerIndex (self_after (dispatch self e)) =
     (if clientIPs (self_after (dispatch self e)) = clientIPs self
      then nextServerIndex self
      else (nextServerIndex self + 1) mod int (length (serverMACs self)))"
proof (cases e)
  case (PacketIn_event event)
  show ?thesis
    unfolding PacketIn_event using cursor_step_PacketIn[OF assms] by simp
next
  case (ConnectionUp_event c)
  show ?thesis
    unfolding ConnectionUp_event by (simp add: handle_ConnectionUp_eq)
qed

lemma no_registration_PacketIn:
  "arp_request_of event = Some packet \<Longrightarrow>
   protosrc packet \<in> set (clientIPs self) \<or> classify self packet \<noteq> ClientToVirtual \<Longrightarrow>
     self_after (handle_PacketIn self event) = self"
  by (auto simp: handle_PacketIn_def send_arp_reply_def Let_def classify_def
      dest!: arp_request_ofD split: sum.splits option.splits if_splits)

lemma registration_PacketIn:
  "arp_request_of event = Some packet \<Longrightarrow> classify self packet = ClientToVirtual \<Longrightarrow>
   protosrc packet \<notin> set (clientIPs self) \<Longrightarrow> consistent self \<Longrightarrow> flowTable self \<noteq> None \<Longrightarrow>
     self_after (handle_PacketIn self event) =
       self\<lparr>clientIPs := clientIPs self @ [protosrc packet],
             clientMACs := clientMACs self @ [hwsrc packet],
             nextServerIndex := (nextServerIndex self + 1) mod int (length (serverMACs self))\<rparr>"
  by (auto simp: handle_PacketIn_def send_arp_reply_def Let_def classify_def consistent_def
      getitem_in_range dest!: arp_request_ofD split: sum.splits option.splits if_splits)

lemma cursor_moves_only_on_registration:
  assumes "nextServerIndex (self_after (dispatch self e)) \<noteq> nextServerIndex self"
  shows "clientIPs (self_after (dispatch self e)) \<noteq> clientIPs self
     \<and> nextServerIndex (self_after (dispatch self e))
         = (nextServerIndex self + 1) mod int (length (serverMACs self))"
proof (cases e)
  case (PacketIn_event event)
  from handle_PacketIn_after[of self event] assms show ?thesis
    unfolding PacketIn_event by auto
next
  case (ConnectionUp_event c)
  from assms show ?thesis
    unfolding ConnectionUp_event by (simp add: handle_ConnectionUp_eq)
qed

lemma reachable_init:
  "consistent (run LoadBalancer_init es) \<and> length (serverMACs (run LoadBalancer_init es)) = 2"
proof -
  have "consistent (run LoadBalancer_init es)"
    by (rule consistent_run) (rule consistent_init)
  moreover have "serverMACs (run LoadBalancer_init es) = serverMACs LoadBalancer_init"
    using pool_run[of LoadBalancer_init es] by simp
  ultimately show ?thesis by (simp add: LoadBalancer_init_def)
qed

text \<open>
  C9, as stated, fails on the object as the constructor leaves it: the request of host
  10.0.0.1 for the virtual address puts the host in the client list, and the cursor is
  where it was, because the send of line 46 raises before line 50 is reached.
\<close>

theorem registration_without_advance_counterexample:
  "clientIPs LoadBalancer_init = []
   \<and> clientIPs (self_after (dispatch LoadBalancer_init (PacketIn_event h1_request)))
       = [IPAddr ''10.0.0.1'']
   \<and> nextServerIndex (self_after (dispatch LoadBalancer_init (PacketIn_event h1_request)))
       = nextServerIndex LoadBalancer_init"
  by (simp add: LoadBalancer_init_def h1_request_def
      arp_request_in_def handle_PacketIn_def getitem_def send_arp_reply_def Let_def
      ARP_TYPE_def REQUEST_def)

text \<open>
  C9, amended. After any sequence of events, from the constructor on, the cursor is an
  integer from 0 up to, and not including, the number of servers, which is 2. An event
  that moves the cursor has registered a new client (the client list has changed) and has
  moved it by exactly one position modulo 2. When a connection is recorded, an event
  moves the cursor exactly when it registers a new client, and a request for the virtual
  address from an unregistered address does so. A request from a registered address, a
  request that is BackendToClient or Irrelevant, a packet that is not an ARP request and a
  link establishment leave the cursor and the client list as they were.
\<close>

theorem cursor_invariant:
  "0 \<le> nextServerIndex (run LoadBalancer_init es)
   \<and> nextServerIndex (run LoadBalancer_init es)
       < int (length (serverMACs (run LoadBalancer_init es)))
   \<and> length (serverMACs (run LoadBalancer_init es)) = 2
   \<and> (nextServerIndex (self_after (dispatch (run LoadBalancer_init es) e))
          \<noteq> nextServerIndex (run LoadBalancer_init es) \<longrightarrow>
        clientIPs (self_after (dispatch (run LoadBalancer_init es) e))
          \<noteq> clientIPs (run LoadBalancer_init es)
        \<and> nextServerIndex (self_after (dispatch (run LoadBalancer_init es) e))
          = (nextServerIndex (run LoadBalancer_init es) + 1) mod 2)
   \<and> (flowTable (run LoadBalancer_init es) \<noteq> None \<longrightarrow>
        nextServerIndex (self_after (dispatch (run LoadBalancer_init es) e)) =
          (if clientIPs (self_after (dispatch (run LoadBalancer_init es) e))
                = clientIPs (run LoadBalancer_init es)
           then nextServerIndex (run LoadBalancer_init es)
           else (nextServerIndex (run LoadBalancer_init es) + 1)
                  mod int (length (serverMACs (run LoadBalancer_init es)))))
   \<and> (flowTable (run LoadBalancer_init es) \<noteq> None
        \<and> e = PacketIn_event event \<and> arp_request_of event = Some packet
        \<and> classify (run LoadBalancer_init es) packet = ClientToVirtual
        \<and> protosrc packet \<notin> set (clientIPs (run LoadBalancer_init es)) \<longrightarrow>
        clientIPs (self_after (dispatch (run LoadBalancer_init es) e))
          = clientIPs (run LoadBalancer_init es) @ [protosrc packet]
        \<and> nextServerIndex (self_after (dispatch (run LoadBalancer_init es) e))
          = (nextServerIndex (run LoadBalancer_init es) + 1) mod 2)
   \<and> (e = PacketIn_event event \<and> arp_request_of event = Some packet
        \<and> (protosrc packet \<in> set (clientIPs (run LoadBalancer_init es))
            \<or> classify (run LoadBalancer_init es) packet \<noteq> ClientToVirtual) \<longrightarrow>
        self_after (dispatch (run LoadBalancer_init es) e) = run LoadBalancer_init es)
   \<and> (e = PacketIn_event event \<and> arp_request_of event = None \<longrightarrow>
        self_after (dispatch (run LoadBalancer_init es) e) = run LoadBalancer_init es)
   \<and> (e = ConnectionUp_event c \<longrightarrow>
        nextServerIndex (self_after (dispatch (run LoadBalancer_init es) e))
          = nextServerIndex (run LoadBalancer_init es)
        \<and> clientIPs (self_after (dispatch (run LoadBalancer_init es) e))
          = clientIPs (run LoadBalancer_init es))"
proof -
  let ?s = "run LoadBalancer_init es"
  from reachable_init[of es] have cs: "consistent ?s" and l: "length (serverMACs ?s) = 2"
    by simp_all
  from cs have r: "0 \<le> nextServerIndex ?s" "nextServerIndex ?s < int (length (serverMACs ?s))"
    by (simp_all add: consistent_def)
  have only: "clientIPs (self_after (dispatch ?s e)) \<noteq> clientIPs ?s
        \<and> nextServerIndex (self_after (dispatch ?s e)) = (nextServerIndex ?s + 1) mod 2"
    if "nextServerIndex (self_after (dispatch ?s e)) \<noteq> nextServerIndex ?s"
    using cursor_moves_only_on_registration[OF that] l by simp
  have st: "nextServerIndex (self_after (dispatch ?s e)) =
          (if clientIPs (self_after (dispatch ?s e)) = clientIPs ?s
           then nextServerIndex ?s
           else (nextServerIndex ?s + 1) mod int (length (serverMACs ?s)))"
    if "flowTable ?s \<noteq> None"
    by (rule cursor_step[OF cs that])
  have reg: "clientIPs (self_after (dispatch ?s e)) = clientIPs ?s @ [protosrc packet]
        \<and> nextServerIndex (self_after (dispatch ?s e)) = (nextServerIndex ?s + 1) mod 2"
    if "flowTable ?s \<noteq> None" "e = PacketIn_event event" "arp_request_of event = Some packet"
      "classify ?s packet = ClientToVirtual" "protosrc packet \<notin> set (clientIPs ?s)"
    using registration_PacketIn[OF that(3,4,5) cs that(1)] that(2) l by simp
  have same: "self_after (dispatch ?s e) = ?s"
    if "e = PacketIn_event event" "arp_request_of event = Some packet"
      "protosrc packet \<in> set (clientIPs ?s) \<or> classify ?s packet \<noteq> ClientToVirtual"
    using no_registration_PacketIn[OF that(2,3)] that(1) by simp
  have quiet: "self_after (dispatch ?s e) = ?s"
    if "e = PacketIn_event event" "arp_request_of event = None"
    using handle_no_request_quiet[OF that(2), of ?s] that(1) by simp
  have up: "nextServerIndex (self_after (dispatch ?s e)) = nextServerIndex ?s
        \<and> clientIPs (self_after (dispatch ?s e)) = clientIPs ?s"
    if "e = ConnectionUp_event c"
    using that by (simp add: handle_ConnectionUp_eq)
  from r l only st reg same quiet up show ?thesis by blast
qed

theorem cursor_invariant_witness:
  "nextServerIndex one_client = 1
   \<and> clientIPs (self_after (dispatch one_client (PacketIn_event h2_request)))
       = [IPAddr ''10.0.0.1'', IPAddr ''10.0.0.2'']
   \<and> nextServerIndex (self_after (dispatch one_client (PacketIn_event h2_request))) = 0"
  using cursor_invariant
    [where es = "[ConnectionUp_event 7, PacketIn_event h1_request]"
       and e = "PacketIn_event h2_request" and event = h2_request
       and packet = "\<lparr>opcode = REQUEST, hwsrc = EthAddr ''00:00:00:00:00:02'',
          hwdst = EthAddr ''00:00:00:00:00:00'',
          protosrc = IPAddr ''10.0.0.2'', protodst = IPAddr ''10.0.0.10''\<rparr>"]
  unfolding one_client_def[symmetric]
  by (simp add: one_client_eq h2_request_def arp_request_in_def arp_request_of_def classify_def)

section \<open>The two client lists stay aligned\<close>

lemma index_Inl: "index xs x = Inl e \<Longrightarrow> x \<notin> set xs"
  using index_mem[of x xs] by auto

lemma raised_PacketIn:
  assumes "consistent self"
  shows "raised (handle_PacketIn self event) = None
     \<or> raised (handle_PacketIn self event) = Some AttributeError"
  using assms
  by (auto simp: handle_PacketIn_def send_arp_reply_def Let_def consistent_def getitem_in_range
      split: payload.splits sum.splits option.splits dest: index_Inl index_first)

lemma raised_dispatch:
  assumes "consistent self"
  shows "raised (dispatch self e) = None \<or> raised (dispatch self e) = Some AttributeError"
proof (cases e)
  case (PacketIn_event event)
  show ?thesis
    unfolding PacketIn_event using raised_PacketIn[OF assms] by simp
next
  case (ConnectionUp_event c)
  show ?thesis
    unfolding ConnectionUp_event by (simp add: handle_ConnectionUp_eq)
qed

text \<open>
  C10. After any sequence of events, from the constructor on, the list of client addresses
  and the list of client hardware addresses have the same length. So the position at which
  a registered address is found in the first list is a valid subscript of the second, and
  no event makes a handler raise an index error (or a value error from the search).
\<close>

theorem registry_lists_aligned:
  "length (clientIPs (run LoadBalancer_init es)) = length (clientMACs (run LoadBalancer_init es))
   \<and> (a \<in> set (clientIPs (run LoadBalancer_init es)) \<longrightarrow>
        (\<exists>i. index (clientIPs (run LoadBalancer_init es)) a = Inr i
           \<and> i < length (clientMACs (run LoadBalancer_init es))
           \<and> getitem (clientMACs (run LoadBalancer_init es)) (int i)
               = Inr (clientMACs (run LoadBalancer_init es) ! i)))
   \<and> raised (dispatch (run LoadBalancer_init es) e) \<noteq> Some IndexError
   \<and> raised (dispatch (run LoadBalancer_init es) e) \<noteq> Some ValueError"
proof -
  let ?s = "run LoadBalancer_init es"
  have cs: "consistent ?s"
    by (rule consistent_run) (rule consistent_init)
  then have len: "length (clientMACs ?s) = length (clientIPs ?s)"
    by (simp add: consistent_def)
  have look: "\<exists>i. index (clientIPs ?s) a = Inr i \<and> i < length (clientMACs ?s)
           \<and> getitem (clientMACs ?s) (int i) = Inr (clientMACs ?s ! i)"
    if "a \<in> set (clientIPs ?s)"
  proof -
    from index_mem[OF that] obtain i where i: "index (clientIPs ?s) a = Inr i"
      and il: "i < length (clientIPs ?s)" by blast
    from il len have "getitem (clientMACs ?s) (int i) = Inr (clientMACs ?s ! i)"
      by (simp add: getitem_in_range)
    with i il len show ?thesis by simp
  qed
  from raised_dispatch[OF cs, of e]
  have r: "raised (dispatch ?s e) \<noteq> Some IndexError \<and> raised (dispatch ?s e) \<noteq> Some ValueError"
    by auto
  from len look r show ?thesis by simp
qed

theorem registry_lists_aligned_witness:
  "length (clientIPs one_client) = length (clientMACs one_client)
   \<and> getitem (clientMACs one_client) 0 = Inr (EthAddr ''00:00:00:00:00:01'')
   \<and> raised (dispatch one_client (PacketIn_event server_request)) \<noteq> Some IndexError"
  using registry_lists_aligned
    [of "[ConnectionUp_event 7, PacketIn_event h1_request]" "IPAddr ''10.0.0.1''"
        "PacketIn_event server_request"]
  unfolding one_client_def[symmetric]
  by (simp add: one_client_eq)

section \<open>Round-robin assignment of new clients\<close>

lemma run_new_clients:
  assumes "map arp_request_of evs = map Some ps"
    and "\<forall>p\<in>set ps. protodst p = virtualIP self"
    and "distinct (map protosrc ps)"
    and "set (map protosrc ps) \<inter> set (clientIPs self) = {}"
    and "consistent self"
    and "flowTable self = Some c"
  shows "run self (map PacketIn_event evs) =
     self\<lparr>clientIPs := clientIPs self @ map protosrc ps,
           clientMACs := clientMACs self @ map hwsrc ps,
           nextServerIndex :=
             (nextServerIndex self + int (length ps)) mod int (length (serverMACs self))\<rparr>"
  using assms
proof (induction evs arbitrary: self ps)
  case Nil
  then show ?case by (simp add: consistent_def)
next
  case (Cons ev evs)
  from Cons.prems(1) obtain p ps' where ps: "ps = p # ps'"
    and p: "arp_request_of ev = Some p"
    and rest: "map arp_request_of evs = map Some ps'"
    by (cases ps) auto
  let ?s1 = "self\<lparr>clientIPs := clientIPs self @ [protosrc p],
                    clientMACs := clientMACs self @ [hwsrc p],
                    nextServerIndex :=
                      (nextServerIndex self + 1) mod int (length (serverMACs self))\<rparr>"
  from Cons.prems(2) ps have v: "protodst p = virtualIP self" by simp
  from Cons.prems(4) ps have n: "protosrc p \<notin> set (clientIPs self)" by auto
  have step: "handle_PacketIn self ev =
     Result None
       [(c, client_rule self ev (nextServerIndex self)),
        (c, arp_reply ev p (virtualIP self) (serverMACs self ! nat (nextServerIndex self)))]
       ?s1"
    by (rule handle_new_client[OF p v n Cons.prems(5,6)])
  have c1: "consistent ?s1"
    using consistent_step[OF Cons.prems(5), of "PacketIn_event ev"] step by simp
  have v1: "\<forall>p\<in>set ps'. protodst p = virtualIP ?s1"
    using Cons.prems(2) ps by simp
  have d1: "distinct (map protosrc ps')"
    using Cons.prems(3) ps by simp
  have n1: "set (map protosrc ps') \<inter> set (clientIPs ?s1) = {}"
    using Cons.prems(3,4) ps by auto
  have f1: "flowTable ?s1 = Some c"
    using Cons.prems(6) by simp
  have ar: "((nextServerIndex self + 1) mod int (length (serverMACs self)) + int (length ps'))
              mod int (length (serverMACs self))
            = (nextServerIndex self + (1 + int (length ps'))) mod int (length (serverMACs self))"
    by (simp add: mod_add_left_eq add.assoc)
  show ?case
    using Cons.IH[OF rest v1 d1 n1 c1 f1] step ps ar by simp
qed

text \<open>
  C1. Start from the controller with its two servers, no client and cursor 0, a switch
  connected. Let distinct addresses ask for the virtual address one after the other. Then
  request number \<open>k\<close> (counted from 0) finds the cursor at \<open>k mod 2\<close> and is assigned that
  server: its rule rewrites the destination to the address of server \<open>k mod 2\<close> and outputs
  to port \<open>k mod 2 + 5\<close>, and its reply carries that server's hardware address. The
  assigned indices are 0, 1, 0, 1, ... in order; the third client is back on server 0.
\<close>

theorem round_robin_assignment:
  assumes "map arp_request_of evs = map Some ps"
    and "\<forall>p\<in>set ps. protodst p = IPAddr ''10.0.0.10''"
    and "distinct (map protosrc ps)"
    and "k < length evs"
  shows "raised (handle_PacketIn (run (connected c) (map PacketIn_event (take k evs))) (evs ! k))
           = None
     \<and> sent (handle_PacketIn (run (connected c) (map PacketIn_event (take k evs))) (evs ! k)) =
       [(c, ofp_flow_mod OFPFC_ADD
              \<lparr>dl_type = Some 0x0800, nw_proto = Some 1, in_port = Some (port (evs ! k)),
               nw_src = None, nw_dst = Some (IPAddr ''10.0.0.10'')\<rparr>
              [set_dst ([IPAddr ''10.0.0.5'', IPAddr ''10.0.0.6''] ! (k mod 2)),
               output (int (k mod 2) + 5)]),
        (c, ofp_packet_out OFPP_NONE
              \<lparr>src = [EthAddr ''00:00:00:00:00:05'', EthAddr ''00:00:00:00:00:06''] ! (k mod 2),
               dst = hwsrc (ps ! k), type = ARP_TYPE,
               next = ARP \<lparr>opcode = REPLY,
                           hwsrc = [EthAddr ''00:00:00:00:00:05'',
                                    EthAddr ''00:00:00:00:00:06''] ! (k mod 2),
                           hwdst = hwsrc (ps ! k), protosrc = IPAddr ''10.0.0.10'',
                           protodst = protosrc (ps ! k)\<rparr>\<rparr>
              [output (port (evs ! k))])]
     \<and> nextServerIndex (run (connected c) (map PacketIn_event (take k evs))) = int (k mod 2)
     \<and> clientIPs (run (connected c) (map PacketIn_event (take (Suc k) evs)))
         = map protosrc (take (Suc k) ps)"
proof -
  from assms(1) have len: "length ps = length evs"
    using map_eq_imp_length_eq by fastforce
  have pool: "virtualIP (connected c) = IPAddr ''10.0.0.10''"
    "clientIPs (connected c) = []" "clientMACs (connected c) = []"
    "serverIPs (connected c) = [IPAddr ''10.0.0.5'', IPAddr ''10.0.0.6'']"
    "serverMACs (connected c) = [EthAddr ''00:00:00:00:00:05'', EthAddr ''00:00:00:00:00:06'']"
    "nextServerIndex (connected c) = 0" "flowTable (connected c) = Some c"
    by (simp_all add: connected_eq LoadBalancer_init_def)
  have after: "run (connected c) (map PacketIn_event (take n evs)) =
     (connected c)\<lparr>clientIPs := map protosrc (take n ps),
                    clientMACs := map hwsrc (take n ps),
                    nextServerIndex := int (n mod 2)\<rparr>"
    if "n \<le> length evs" for n
  proof -
    have 1: "map arp_request_of (take n evs) = map Some (take n ps)"
      using assms(1) by (simp add: take_map[symmetric])
    have 2: "\<forall>p\<in>set (take n ps). protodst p = virtualIP (connected c)"
      using assms(2) pool(1) by (auto dest: in_set_takeD)
    have 3: "distinct (map protosrc (take n ps))"
      using assms(3) by (simp add: take_map[symmetric])
    have 4: "set (map protosrc (take n ps)) \<inter> set (clientIPs (connected c)) = {}"
      by (simp add: pool)
    from that len have 5: "length (take n ps) = n" by simp
    show ?thesis
      using run_new_clients[OF 1 2 3 4 consistent_connected pool(7)] 5
      by (simp add: pool zmod_int)
  qed
  let ?s = "run (connected c) (map PacketIn_event (take k evs))"
  from assms(4) have kl: "k \<le> length evs" "Suc k \<le> length evs" "k < length ps"
    using len by simp_all
  note sk = after[OF kl(1)]
  have p: "arp_request_of (evs ! k) = Some (ps ! k)"
  proof -
    have "map arp_request_of evs ! k = map Some ps ! k" using assms(1) by simp
    with assms(4) kl(3) show ?thesis by simp
  qed
  have v: "protodst (ps ! k) = virtualIP ?s"
    using assms(2) kl(3) by (simp add: sk pool)
  have n: "protosrc (ps ! k) \<notin> set (clientIPs ?s)"
  proof -
    have "distinct (take (Suc k) (map protosrc ps))"
      using assms(3) by simp
    with kl(3) have "protosrc (ps ! k) \<notin> set (take k (map protosrc ps))"
      by (simp add: take_Suc_conv_app_nth)
    then show ?thesis by (simp add: sk take_map)
  qed
  have cs: "consistent ?s" by (rule consistent_run) (rule consistent_connected)
  have ft: "flowTable ?s = Some c" by (simp add: sk pool)
  have k2: "nat (int (k mod 2)) = k mod 2" by simp
  note h = handle_new_client[OF p v n cs ft]
  have a: "raised (handle_PacketIn ?s (evs ! k)) = None"
    unfolding h by simp
  have b: "sent (handle_PacketIn ?s (evs ! k)) =
       [(c, ofp_flow_mod OFPFC_ADD
              \<lparr>dl_type = Some 0x0800, nw_proto = Some 1, in_port = Some (port (evs ! k)),
               nw_src = None, nw_dst = Some (IPAddr ''10.0.0.10'')\<rparr>
              [set_dst ([IPAddr ''10.0.0.5'', IPAddr ''10.0.0.6''] ! (k mod 2)),
               output (int (k mod 2) + 5)]),
        (c, ofp_packet_out OFPP_NONE
              \<lparr>src = [EthAddr ''00:00:00:00:00:05'', EthAddr ''00:00:00:00:00:06''] ! (k mod 2),
               dst = hwsrc (ps ! k), type = ARP_TYPE,
               next = ARP \<lparr>opcode = REPLY,
                           hwsrc = [EthAddr ''00:00:00:00:00:05'',
                                    EthAddr ''00:00:00:00:00:06''] ! (k mod 2),
                           hwdst = hwsrc (ps ! k), protosrc = IPAddr ''10.0.0.10'',
                           protodst = protosrc (ps ! k)\<rparr>\<rparr>
              [output (port (evs ! k))])]"
    unfolding h by (simp add: client_rule_def arp_reply_def sk pool k2 del: of_nat_mod)
  have d: "nextServerIndex ?s = int (k mod 2)"
    by (simp add: sk del: of_nat_mod)
  have e: "clientIPs (run (connected c) (map PacketIn_event (take (Suc k) evs)))
         = map protosrc (take (Suc k) ps)"
    by (simp add: after[OF kl(2)])
  from a b d e show ?thesis by blast
qed

theorem round_robin_assignment_witness:
  "sent (handle_PacketIn
           (run (connected 7) [PacketIn_event h1_request, PacketIn_event h2_request])
           h3_request) =
       [(7, ofp_flow_mod OFPFC_ADD
              \<lparr>dl_type = Some 0x0800, nw_proto = Some 1, in_port = Some 3,
               nw_src = None, nw_dst = Some (IPAddr ''10.0.0.10'')\<rparr>
              [set_dst (IPAddr ''10.0.0.5''), output 5]),
        (7, ofp_packet_out OFPP_NONE
              \<lparr>src = EthAddr ''00:00:00:00:00:05'', dst = EthAddr ''00:00:00:00:00:03'',
               type = ARP_TYPE,
               next = ARP \<lparr>opcode = REPLY, hwsrc = EthAddr ''00:00:00:00:00:05'',
                           hwdst = EthAddr ''00:00:00:00:00:03'',
                           protosrc = IPAddr ''10.0.0.10'',
                           protodst = IPAddr ''10.0.0.3''\<rparr>\<rparr>
              [output 3])]"
  using round_robin_assignment
    [of "[h1_request, h2_request, h3_request]"
        "[\<lparr>opcode = REQUEST, hwsrc = EthAddr ''00:00:00:00:00:01'',
          hwdst = EthAddr ''00:00:00:00:00:00'',
          protosrc = IPAddr ''10.0.0.1'', protodst = IPAddr ''10.0.0.10''\<rparr>,
         \<lparr>opcode = REQUEST, hwsrc = EthAddr ''00:00:00:00:00:02'',
          hwdst = EthAddr ''00:00:00:00:00:00'',
          protosrc = IPAddr ''10.0.0.2'', protodst = IPAddr ''10.0.0.10''\<rparr>,
         \<lparr>opcode = REQUEST, hwsrc = EthAddr ''00:00:00:00:00:03'',
          hwdst = EthAddr ''00:00:00:00:00:00'',
          protosrc = IPAddr ''10.0.0.3'', protodst = IPAddr ''10.0.0.10''\<rparr>]"
        2 7]
  by (simp add: h1_request_def h2_request_def h3_request_def arp_request_in_def
      arp_request_of_def)

end
